theory Spec2Isabelle
  imports Complex_Main
begin

section \<open>Python values shared by the model\<close>

text \<open>
  A Python exception is identified by the name of its class. The program defines no
  exception class of its own and contains no \<^verbatim>\<open>try\<close>, \<^verbatim>\<open>except\<close> or \<^verbatim>\<open>raise\<close>: an exception
  raised by a library call leaves every enclosing function of the program at the call.
\<close>

datatype py_exception = PyException string

text \<open>
  \<^verbatim>\<open>TextBlob(text).sentiment.polarity\<close> is the library call that scores a text. It is a
  parameter of the model: it either raises or yields a polarity, a Python float. A float
  is read as the real number it denotes, and the comparisons of the source are comparisons
  of these numbers.
\<close>

type_synonym scorer = "string \<Rightarrow> py_exception + real"

text \<open>
  The literal \<^verbatim>\<open>0.1\<close> of the source is a float too: the double nearest to one tenth,
  which is \<open>7205759403792794 / 2 ^ 56\<close>, slightly more than one tenth. The expression
  \<^verbatim>\<open>-0.1\<close> negates it without rounding.
\<close>

definition float_0_1 :: real where
  "float_0_1 = 3602879701896397 / 2 ^ 55"

section \<open>SentimentAnalyzer\<close>

text \<open>
  \<^verbatim>\<open>SentimentAnalyzer.analyze_sentiment\<close>: the labels are the strings of the source; the
  call to \<^verbatim>\<open>logging.debug\<close> has no effect on the values and is left out.
\<close>

definition analyze_sentiment :: "scorer \<Rightarrow> string \<Rightarrow> py_exception + (string \<times> real)" where
  "analyze_sentiment textblob_polarity text =
     (case textblob_polarity text of
        Inl e \<Rightarrow> Inl e
      | Inr polarity \<Rightarrow>
          if polarity > float_0_1 then Inr (''Positive'', polarity)
          else if polarity < - float_0_1 then Inr (''Negative'', polarity)
          else Inr (''Neutral'', polarity))"

section \<open>DatabaseManager\<close>

text \<open>
  The database file holds the two tables that \<^verbatim>\<open>setup_db\<close> creates. The table
  \<^verbatim>\<open>preferences\<close> has the primary key \<^verbatim>\<open>user_id INTEGER\<close>, so it is a finite map from
  integer keys to the three remaining columns. The table \<^verbatim>\<open>sentiment_history\<close> is the
  list of its rows in the order of insertion. Its column \<^verbatim>\<open>user_id\<close> is not a key; it
  receives the nick that \<^verbatim>\<open>on_pubmsg\<close> cuts from the sender, a string. The row of the model
  keeps the nick as the call passed it; the store would keep a nick that it reads as an
  integer as that integer, which no operation of the program can observe, since none reads
  this table. The column \<^verbatim>\<open>timestamp\<close>, filled by the clock of the store, is
  read by no operation and is not modelled, and neither are failures of the disk or of the
  connection.
\<close>

record sentiment_row =
  row_id :: int
  row_user_id :: string
  row_message :: string
  row_sentiment :: string
  row_polarity :: real

record database =
  preferences :: "int \<rightharpoonup> (bool \<times> int \<times> real)"
  sentiment_history :: "sentiment_row list"

text \<open>
  \<^verbatim>\<open>setup_db\<close> runs \<^verbatim>\<open>CREATE TABLE IF NOT EXISTS\<close> twice: a new file gets two empty
  tables, an existing database is left as it is. \<open>None\<close> stands for a new file.
\<close>

definition setup_db :: "database option \<Rightarrow> database" where
  "setup_db file =
     (case file of
        None \<Rightarrow> \<lparr>preferences = Map.empty, sentiment_history = []\<rparr>
      | Some db \<Rightarrow> db)"

text \<open>
  Python does not type the user id of the two methods on preferences. The model takes the
  two kinds of value that the program and its schema give a user id: an integer of any
  size, as the column is declared, and a string, as the nick of \<^verbatim>\<open>on_pubmsg\<close> is.
\<close>

datatype py_value = PyInt int | PyStr string

text \<open>
  An integer of the store has 64 bits. Binding a Python integer outside that range to a
  parameter of a statement raises \<^verbatim>\<open>OverflowError\<close> before the statement runs.
\<close>

definition min_rowid :: int where
  "min_rowid = - 9223372036854775808"

definition max_rowid :: int where
  "max_rowid = 9223372036854775807"

definition fits_int64 :: "int \<Rightarrow> bool" where
  "fits_int64 i \<longleftrightarrow> min_rowid \<le> i \<and> i \<le> max_rowid"

definition binds :: "py_value \<Rightarrow> bool" where
  "binds v = (case v of PyInt i \<Rightarrow> fits_int64 i | PyStr t \<Rightarrow> True)"

text \<open>
  The key of a row of \<^verbatim>\<open>preferences\<close> is an integer. For a bound text the store decides
  whether the text reads as an integer, which then is the key, or not. That decision is
  the store's and is a parameter of the model, as the scorer is; the store applies it to
  the key of an \<^verbatim>\<open>INSERT\<close> and to the key that a \<^verbatim>\<open>SELECT\<close> compares with the column alike.
\<close>

type_synonym integer_of_text = "string \<Rightarrow> int option"

definition key_of :: "integer_of_text \<Rightarrow> py_value \<Rightarrow> int option" where
  "key_of as_integer v = (case v of PyInt i \<Rightarrow> Some i | PyStr t \<Rightarrow> as_integer t)"


text \<open>
  \<^verbatim>\<open>set_user_preferences\<close>: the parameters are bound first, the user id and the interval
  being the integers among them. Then \<^verbatim>\<open>INSERT OR REPLACE\<close> runs: a user id that is no
  integer is a datatype mismatch of the store, which Python raises as
  \<^verbatim>\<open>IntegrityError\<close>; otherwise the row that has the key, if there is one, is removed and
  the new row is inserted. An exception leaves the function before \<^verbatim>\<open>commit\<close>, so the
  database is as before. The store keeps the Boolean as 1 or 0, which Python's equality
  identifies with \<^verbatim>\<open>True\<close> and \<^verbatim>\<open>False\<close>.
\<close>

definition set_user_preferences ::
  "integer_of_text \<Rightarrow> database \<Rightarrow> py_value \<Rightarrow> bool \<Rightarrow> int \<Rightarrow> real
     \<Rightarrow> py_exception option \<times> database" where
  "set_user_preferences as_integer db user_id enable_mood_checks check_interval mood_threshold =
     (if binds user_id then
        if fits_int64 check_interval then
          (case key_of as_integer user_id of
             None \<Rightarrow> (Some (PyException ''IntegrityError''), db)
           | Some key \<Rightarrow>
               (None,
                db\<lparr>preferences := (preferences db)
                     (key \<mapsto> (enable_mood_checks, check_interval, mood_threshold))\<rparr>))
        else (Some (PyException ''OverflowError''), db)
      else (Some (PyException ''OverflowError''), db))"

text \<open>
  The \<^verbatim>\<open>INSERT\<close> of \<^verbatim>\<open>log_sentiment\<close> names no \<^verbatim>\<open>id\<close>, and \<^verbatim>\<open>id\<close> is declared
  \<^verbatim>\<open>INTEGER PRIMARY KEY\<close>: the store chooses it, 1 in an empty table and otherwise the
  largest id in use plus one. That rule of the store holds while the largest id is below
  \<open>max_rowid\<close>, the largest 64-bit signed integer.
\<close>

definition next_rowid :: "int list \<Rightarrow> int" where
  "next_rowid ids = (if ids = [] then 1 else Max (set ids) + 1)"

text \<open>
  \<^verbatim>\<open>log_sentiment\<close> has no \<^verbatim>\<open>return\<close> statement, so the call evaluates to Python's
  \<^verbatim>\<open>None\<close>. The first component of the result is that value, at a type that could hold
  an id; the second is the database after the commit.
\<close>

definition log_sentiment ::
  "database \<Rightarrow> string \<Rightarrow> string \<Rightarrow> string \<Rightarrow> real \<Rightarrow> int option \<times> database" where
  "log_sentiment db user_id message sentiment polarity =
     (None,
      db\<lparr>sentiment_history := sentiment_history db @
           [\<lparr>row_id = next_rowid (map row_id (sentiment_history db)),
             row_user_id = user_id, row_message = message,
             row_sentiment = sentiment, row_polarity = polarity\<rparr>]\<rparr>)"

section \<open>MoodAwareAI\<close>

text \<open>
  The object holds its database manager, here the database behind it, and the attribute
  \<^verbatim>\<open>latest_message\<close>, which is \<^verbatim>\<open>None\<close> or a tuple of message, label and polarity. The
  configuration object read by the constructor is used nowhere.
\<close>

record mood_aware_ai =
  db_manager :: database
  latest_message :: "(string \<times> string \<times> real) option"

definition MoodAwareAI_init :: "database option \<Rightarrow> mood_aware_ai" where
  "MoodAwareAI_init file = \<lparr>db_manager = setup_db file, latest_message = None\<rparr>"

text \<open>
  \<^verbatim>\<open>analyze_message\<close> returns the value of the call or the exception that left it,
  together with the object afterwards. An exception of the scorer leaves the function
  before \<^verbatim>\<open>log_sentiment\<close> and before the assignment.
\<close>

definition analyze_message ::
  "scorer \<Rightarrow> mood_aware_ai \<Rightarrow> string \<Rightarrow> string
     \<Rightarrow> (py_exception + (string \<times> real)) \<times> mood_aware_ai" where
  "analyze_message textblob_polarity ai message user_id =
     (case analyze_sentiment textblob_polarity message of
        Inl e \<Rightarrow> (Inl e, ai)
      | Inr (sentiment, polarity) \<Rightarrow>
          (Inr (sentiment, polarity),
           ai\<lparr>db_manager :=
                  snd (log_sentiment (db_manager ai) user_id message sentiment polarity),
              latest_message := Some (message, sentiment, polarity)\<rparr>))"

definition get_latest_message :: "mood_aware_ai \<Rightarrow> (string \<times> string \<times> real) option" where
  "get_latest_message ai = latest_message ai"


definition update_user_preferences ::
  "integer_of_text \<Rightarrow> mood_aware_ai \<Rightarrow> py_value \<Rightarrow> bool \<Rightarrow> int \<Rightarrow> real
     \<Rightarrow> py_exception option \<times> mood_aware_ai" where
  "update_user_preferences as_integer ai user_id enable_mood_checks check_interval
       mood_threshold =
     (case set_user_preferences as_integer (db_manager ai) user_id enable_mood_checks
             check_interval mood_threshold of
        (outcome, db) \<Rightarrow> (outcome, ai\<lparr>db_manager := db\<rparr>))"

section \<open>MoodCheckBot\<close>

text \<open>
  \<^verbatim>\<open>connection.privmsg\<close> belongs to the IRC library. It is a parameter: for a target and
  a text it either raises (\<open>Some e\<close>) or delivers (\<open>None\<close>). The bot is its channel, its
  \<^verbatim>\<open>mood_ai\<close>, the delays in seconds of the timers that were started and have not fired yet,
  and the messages delivered so far, as pairs of target and text.
\<close>

type_synonym connection = "string \<Rightarrow> string \<Rightarrow> py_exception option"

record mood_check_bot =
  channel :: string
  mood_ai :: mood_aware_ai
  timers :: "nat list"
  sent :: "(string \<times> string) list"

text \<open>\<^verbatim>\<open>threading.Timer(300, self.check_and_respond_periodically).start()\<close>\<close>

definition schedule_periodic_mood_check :: "mood_check_bot \<Rightarrow> mood_check_bot" where
  "schedule_periodic_mood_check self = self\<lparr>timers := timers self @ [300]\<rparr>"

text \<open>The constructor stores its arguments and starts the first timer.\<close>

definition MoodCheckBot_init :: "string \<Rightarrow> mood_aware_ai \<Rightarrow> mood_check_bot" where
  "MoodCheckBot_init chan ai =
     schedule_periodic_mood_check \<lparr>channel = chan, mood_ai = ai, timers = [], sent = []\<rparr>"

text \<open>
  \<^verbatim>\<open>privmsg\<close> as the bot calls it: an exception leaves the bot as it is, a delivery is
  recorded.
\<close>

definition privmsg ::
  "connection \<Rightarrow> mood_check_bot \<Rightarrow> string \<Rightarrow> string \<Rightarrow> py_exception option \<times> mood_check_bot" where
  "privmsg conn self target text =
     (case conn target text of
        Some e \<Rightarrow> (Some e, self)
      | None \<Rightarrow> (None, self\<lparr>sent := sent self @ [(target, text)]\<rparr>))"

definition periodic_response :: "string \<Rightarrow> string \<Rightarrow> string" where
  "periodic_response sentiment message =
     (if sentiment = ''Positive'' then ''Great mood! Keep it up! ('' @ message @ '')''
      else if sentiment = ''Negative'' then
        ''Hang in there! We're here for you. ('' @ message @ '')''
      else ''Neutral mood, feel free to talk to me! ('' @ message @ '')'')"

text \<open>
  \<^verbatim>\<open>check_and_respond_periodically\<close>, the body of a tick. A tuple of three components is
  true in Python, so \<^verbatim>\<open>if latest_message:\<close> separates \<^verbatim>\<open>None\<close> from a record. The call of
  \<^verbatim>\<open>schedule_periodic_mood_check\<close> is the last statement: an exception raised by
  \<^verbatim>\<open>privmsg\<close> leaves the function before it.
\<close>

definition check_and_respond_periodically ::
  "connection \<Rightarrow> mood_check_bot \<Rightarrow> py_exception option \<times> mood_check_bot" where
  "check_and_respond_periodically conn self =
     (case get_latest_message (mood_ai self) of
        None \<Rightarrow> (None, schedule_periodic_mood_check self)
      | Some (message, sentiment, score) \<Rightarrow>
          (case privmsg conn self (channel self) (periodic_response sentiment message) of
             (Some e, self') \<Rightarrow> (Some e, self')
           | (None, self') \<Rightarrow> (None, schedule_periodic_mood_check self')))"

text \<open>
  A timer that fires leaves the list of pending timers and runs the tick in its own
  thread; an exception ends that thread only. Without a pending timer nothing fires.
\<close>

definition timer_fires :: "connection \<Rightarrow> mood_check_bot \<Rightarrow> py_exception option \<times> mood_check_bot" where
  "timer_fires conn self =
     (case timers self of
        [] \<Rightarrow> (None, self)
      | delay # rest \<Rightarrow> check_and_respond_periodically conn (self\<lparr>timers := rest\<rparr>))"

definition immediate_response :: "string \<Rightarrow> string \<Rightarrow> string" where
  "immediate_response sentiment user =
     (if sentiment = ''Positive'' then user @ '', that's awesome! Keep it up!''
      else if sentiment = ''Negative'' then user @ '', I'm here for you if you need anything.''
      else user @ '', how can I help today?'')"

text \<open>
  \<^verbatim>\<open>on_pubmsg\<close>: the user is the sender up to its first \<^verbatim>\<open>!\<close>, as
  \<^verbatim>\<open>e.source.split('!')[0]\<close> computes it.
\<close>

definition on_pubmsg ::
  "scorer \<Rightarrow> connection \<Rightarrow> mood_check_bot \<Rightarrow> string \<Rightarrow> string
     \<Rightarrow> py_exception option \<times> mood_check_bot" where
  "on_pubmsg textblob_polarity conn self message source =
     (let user = takeWhile (\<lambda>c. c \<noteq> CHR ''!'') source in
      case analyze_message textblob_polarity (mood_ai self) message user of
        (Inl e, ai') \<Rightarrow> (Some e, self\<lparr>mood_ai := ai'\<rparr>)
      | (Inr (sentiment, score), ai') \<Rightarrow>
          privmsg conn (self\<lparr>mood_ai := ai'\<rparr>) (channel self) (immediate_response sentiment user))"

section \<open>Runs of the bot\<close>

text \<open>
  The events that reach a running bot: the methods of its \<^verbatim>\<open>mood_ai\<close>, a public message
  of the channel, and a timer that fires. The two events that may send carry the behaviour
  of the connection at that moment, and the two events on preferences the store's reading
  of a text as an integer. A run applies events in order; the state is what the next event
  finds, whether or not the handler raised.
\<close>

datatype event =
    Analyze string string
  | Latest
  | GetPreferences integer_of_text py_value
  | UpdatePreferences integer_of_text py_value bool int real
  | PubMsg connection string string
  | Tick connection

fun step :: "scorer \<Rightarrow> event \<Rightarrow> mood_check_bot \<Rightarrow> mood_check_bot" where
  "step sc (Analyze message user_id) self =
     self\<lparr>mood_ai := snd (analyze_message sc (mood_ai self) message user_id)\<rparr>"
| "step sc Latest self = self"
| "step sc (GetPreferences as_integer user_id) self = self"
| "step sc (UpdatePreferences as_integer user_id e c m) self =
     self\<lparr>mood_ai := snd (update_user_preferences as_integer (mood_ai self) user_id e c m)\<rparr>"
| "step sc (PubMsg conn message source) self = snd (on_pubmsg sc conn self message source)"
| "step sc (Tick conn) self = snd (timer_fires conn self)"

definition run :: "scorer \<Rightarrow> event list \<Rightarrow> mood_check_bot \<Rightarrow> mood_check_bot" where
  "run sc events self = fold (step sc) events self"

fun calls_analyze :: "event \<Rightarrow> bool" where
  "calls_analyze (Analyze message user_id) = True"
| "calls_analyze (PubMsg conn message source) = True"
| "calls_analyze _ = False"

section \<open>Notions used to state the properties\<close>

text \<open>
  The specification names an exception class \<^verbatim>\<open>ClassificationError\<close>. The source neither
  defines nor raises a class of that name; the constant only serves to say so.
\<close>

definition ClassificationError :: py_exception where
  "ClassificationError = PyException ''ClassificationError''"

text \<open>Two bots that differ at most in the table of preferences.\<close>

definition same_but_preferences :: "mood_check_bot \<Rightarrow> mood_check_bot \<Rightarrow> bool" where
  "same_but_preferences a b \<longleftrightarrow>
     channel a = channel b \<and> timers a = timers b \<and> sent a = sent b
     \<and> latest_message (mood_ai a) = latest_message (mood_ai b)
     \<and> sentiment_history (db_manager (mood_ai a)) = sentiment_history (db_manager (mood_ai b))"

section \<open>The store chooses ids above all ids in use\<close>

lemma next_rowid_gt: "i \<in> set ids \<Longrightarrow> i < next_rowid ids"
  by (auto simp: next_rowid_def less_iff_succ_less_eq intro: Max_ge)

lemma next_rowid_le: "\<forall>i \<in> set ids. i < max_rowid \<Longrightarrow> next_rowid ids \<le> max_rowid"
  by (auto simp: next_rowid_def max_rowid_def)

lemma next_rowid_upto: "next_rowid [1..int n] = int n + 1"
proof (cases n)
  case 0
  then show ?thesis by (simp add: next_rowid_def)
next
  case (Suc k)
  then have "Max {1..int n} = int n"
    by (intro Max_eqI) auto
  with Suc show ?thesis by (simp add: next_rowid_def)
qed

lemma length_log_sentiment:
  "length (sentiment_history (snd (log_sentiment db u m s p)))
     = Suc (length (sentiment_history db))"
  by (simp add: log_sentiment_def)

lemma history_ids_step:
  assumes "map row_id (sentiment_history db) = [1..int (length (sentiment_history db))]"
  shows "map row_id (sentiment_history (snd (log_sentiment db u m s p)))
     = [1..int (length (sentiment_history (snd (log_sentiment db u m s p))))]"
proof -
  let ?n = "length (sentiment_history db)"
  have "[1..int ?n + 1] = [1..int ?n] @ [int ?n + 1]"
    by (simp add: upto_rec2)
  with assms next_rowid_upto [of ?n] show ?thesis
    by (simp add: log_sentiment_def add.commute)
qed

lemma history_ids_fold:
  assumes "map row_id (sentiment_history db) = [1..int (length (sentiment_history db))]"
  shows "map row_id (sentiment_history
           (fold (\<lambda>(u, m, s, p) d. snd (log_sentiment d u m s p)) calls db))
     = [1..int (length (sentiment_history db) + length calls)]"
  using assms
proof (induction calls arbitrary: db)
  case Nil
  then show ?case by simp
next
  case (Cons c calls)
  obtain u m s p where c: "c = (u, m, s, p)" by (cases c) auto
  from Cons.IH [OF history_ids_step [OF Cons.prems, of u m s p]] c
  show ?case by (simp add: length_log_sentiment)
qed

section \<open>The threshold is the float nearest to one tenth\<close>

lemma float_0_1_double:
  "float_0_1 = 7205759403792794 / 2 ^ 56
   \<and> (2::int) ^ 52 \<le> 7205759403792794 \<and> (7205759403792794::int) < 2 ^ 53
   \<and> \<bar>float_0_1 - 1 / 10\<bar> < 1 / 2 ^ 57
   \<and> 1 / 10 < float_0_1"
  by (simp add: float_0_1_def)

section \<open>Writing preferences touches nothing else\<close>

lemma set_user_preferences_history:
  "sentiment_history (snd (set_user_preferences as_integer db u e c m)) = sentiment_history db"
  by (simp add: set_user_preferences_def split: option.splits)

lemma update_user_preferences_latest:
  "latest_message (snd (update_user_preferences as_integer ai u e c m)) = latest_message ai"
  by (cases "set_user_preferences as_integer (db_manager ai) u e c m")
    (simp add: update_user_preferences_def)

lemma update_user_preferences_history:
  "sentiment_history (db_manager (snd (update_user_preferences as_integer ai u e c m)))
     = sentiment_history (db_manager ai)"
  using set_user_preferences_history [of as_integer "db_manager ai" u e c m]
  by (cases "set_user_preferences as_integer (db_manager ai) u e c m")
    (simp add: update_user_preferences_def)

section \<open>What each event does to the latest message\<close>

lemma latest_check:
  "latest_message (mood_ai (snd (check_and_respond_periodically conn self)))
     = latest_message (mood_ai self)"
  by (auto simp: check_and_respond_periodically_def privmsg_def schedule_periodic_mood_check_def
      split: option.splits prod.splits)

lemma latest_timer_fires:
  "latest_message (mood_ai (snd (timer_fires conn self))) = latest_message (mood_ai self)"
  by (simp add: timer_fires_def latest_check split: list.splits)

lemma latest_analyze:
  "latest_message (snd (analyze_message sc ai m u)) = latest_message ai
   \<or> (\<exists>l p. fst (analyze_message sc ai m u) = Inr (l, p)
         \<and> latest_message (snd (analyze_message sc ai m u)) = Some (m, l, p))"
  by (auto simp: analyze_message_def split: sum.splits prod.splits)

lemma mood_ai_on_pubmsg:
  "mood_ai (snd (on_pubmsg sc conn self m src))
     = snd (analyze_message sc (mood_ai self) m (takeWhile (\<lambda>c. c \<noteq> CHR ''!'') src))"
  by (auto simp: on_pubmsg_def privmsg_def Let_def split: sum.splits prod.splits option.splits)

lemma latest_step_quiet:
  "\<not> calls_analyze ev \<Longrightarrow>
     latest_message (mood_ai (step sc ev self)) = latest_message (mood_ai self)"
  by (cases ev) (simp_all add: update_user_preferences_latest latest_timer_fires)

lemma latest_step:
  "latest_message (mood_ai (step sc ev self)) = latest_message (mood_ai self)
   \<or> latest_message (mood_ai (step sc ev self)) \<noteq> None"
proof (cases ev)
  case (Analyze m u)
  then show ?thesis using latest_analyze [of sc "mood_ai self" m u] by auto
next
  case (PubMsg conn m src)
  then show ?thesis
    using latest_analyze [of sc "mood_ai self" m "takeWhile (\<lambda>c. c \<noteq> CHR ''!'') src"]
    by (auto simp: mood_ai_on_pubmsg)
qed (simp_all add: update_user_preferences_latest latest_timer_fires)

lemma latest_run_quiet:
  "\<forall>ev \<in> set events. \<not> calls_analyze ev \<Longrightarrow>
     latest_message (mood_ai (run sc events self)) = latest_message (mood_ai self)"
  unfolding run_def
  by (induction events arbitrary: self) (simp_all add: latest_step_quiet)

lemma latest_run_nonempty:
  "latest_message (mood_ai self) \<noteq> None \<Longrightarrow>
     latest_message (mood_ai (run sc events self)) \<noteq> None"
  unfolding run_def
proof (induction events arbitrary: self)
  case Nil
  then show ?case by simp
next
  case (Cons ev events)
  from Cons.prems latest_step [of sc ev self]
  have "latest_message (mood_ai (step sc ev self)) \<noteq> None" by auto
  then show ?case using Cons.IH by simp
qed

section \<open>What each event does to the timers\<close>

lemma timers_check:
  "set (timers (snd (check_and_respond_periodically conn self)))
     \<subseteq> insert 300 (set (timers self))"
  by (auto simp: check_and_respond_periodically_def privmsg_def schedule_periodic_mood_check_def
      split: option.splits prod.splits)

lemma timers_on_pubmsg: "timers (snd (on_pubmsg sc conn self m src)) = timers self"
  by (auto simp: on_pubmsg_def privmsg_def Let_def split: sum.splits prod.splits option.splits)

lemma timers_step: "set (timers (step sc ev self)) \<subseteq> insert 300 (set (timers self))"
proof (cases ev)
  case (Tick conn)
  show ?thesis
  proof (cases "timers self")
    case Nil
    with Tick show ?thesis by (simp add: timer_fires_def)
  next
    case (Cons d ds)
    with Tick timers_check [of conn "self\<lparr>timers := ds\<rparr>"] show ?thesis
      by (auto simp: timer_fires_def)
  qed
qed (simp_all add: timers_on_pubmsg subset_insertI)

lemma timers_run:
  "set (timers self) \<subseteq> {300} \<Longrightarrow> set (timers (run sc events self)) \<subseteq> {300}"
  unfolding run_def
proof (induction events arbitrary: self)
  case Nil
  then show ?case by simp
next
  case (Cons ev events)
  from Cons.prems timers_step [of sc ev self]
  have "set (timers (step sc ev self)) \<subseteq> {300}" by auto
  then show ?case using Cons.IH by simp
qed

section \<open>No event reads the preferences\<close>

lemma same_check:
  assumes "same_but_preferences a b"
  shows "fst (check_and_respond_periodically conn a) = fst (check_and_respond_periodically conn b)
     \<and> same_but_preferences (snd (check_and_respond_periodically conn a))
          (snd (check_and_respond_periodically conn b))"
  using assms
  by (auto simp: same_but_preferences_def check_and_respond_periodically_def privmsg_def
      get_latest_message_def schedule_periodic_mood_check_def split: option.splits prod.splits)

lemma same_analyze:
  assumes "latest_message a = latest_message b"
    and "sentiment_history (db_manager a) = sentiment_history (db_manager b)"
  shows "fst (analyze_message sc a m u) = fst (analyze_message sc b m u)
     \<and> latest_message (snd (analyze_message sc a m u))
         = latest_message (snd (analyze_message sc b m u))
     \<and> sentiment_history (db_manager (snd (analyze_message sc a m u)))
         = sentiment_history (db_manager (snd (analyze_message sc b m u)))"
  using assms
  by (auto simp: analyze_message_def log_sentiment_def split: sum.splits prod.splits)

lemma same_on_pubmsg:
  assumes "same_but_preferences a b"
  shows "same_but_preferences (snd (on_pubmsg sc conn a m src)) (snd (on_pubmsg sc conn b m src))"
  using assms same_analyze [of "mood_ai a" "mood_ai b" sc m "takeWhile (\<lambda>c. c \<noteq> CHR ''!'') src"]
  by (auto simp: same_but_preferences_def on_pubmsg_def privmsg_def Let_def
      split: sum.splits prod.splits option.splits)

lemma same_step:
  assumes "same_but_preferences a b"
  shows "same_but_preferences (step sc ev a) (step sc ev b)"
proof (cases ev)
  case (Analyze m u)
  with assms same_analyze [of "mood_ai a" "mood_ai b" sc m u] show ?thesis
    by (simp add: same_but_preferences_def)
next
  case (UpdatePreferences as_integer u e c m)
  with assms show ?thesis
    by (simp add: same_but_preferences_def update_user_preferences_latest
        update_user_preferences_history)
next
  case (PubMsg conn m src)
  with assms show ?thesis by (simp add: same_on_pubmsg)
next
  case (Tick conn)
  show ?thesis
  proof (cases "timers a")
    case Nil
    with Tick assms show ?thesis by (simp add: timer_fires_def same_but_preferences_def)
  next
    case (Cons d ds)
    from assms Cons have tb: "timers b = d # ds"
      by (simp add: same_but_preferences_def)
    from assms have "same_but_preferences (a\<lparr>timers := ds\<rparr>) (b\<lparr>timers := ds\<rparr>)"
      by (simp add: same_but_preferences_def)
    from same_check [OF this, of conn] show ?thesis
      by (simp add: Tick timer_fires_def Cons tb)
  qed
qed (use assms in simp_all)

lemma same_run:
  "same_but_preferences a b \<Longrightarrow> same_but_preferences (run sc events a) (run sc events b)"
  unfolding run_def
  by (induction events arbitrary: a b) (simp_all add: same_step)

section \<open>Classification thresholds\<close>

text \<open>
  C1. For every polarity \<open>p\<close> that the scorer returns, \<open>analyze_sentiment\<close> returns \<open>p\<close>
  itself together with the label Positive exactly when \<open>p > 0.1\<close>, Negative exactly when
  \<open>p < -0.1\<close> and Neutral exactly when \<open>-0.1 \<le> p \<le> 0.1\<close>, where \<open>0.1\<close> and \<open>-0.1\<close> are the
  floats that Python writes so, \<open>float_0_1\<close> and its negation; so the boundary values, the
  floats \<open>0.1\<close> and \<open>-0.1\<close> themselves, are both Neutral.
\<close>

theorem analyze_sentiment_thresholds:
  assumes "textblob_polarity text = Inr p"
  shows "\<exists>label. analyze_sentiment textblob_polarity text = Inr (label, p)
           \<and> (label = ''Positive'' \<longleftrightarrow> p > float_0_1)
           \<and> (label = ''Negative'' \<longleftrightarrow> p < - float_0_1)
           \<and> (label = ''Neutral'' \<longleftrightarrow> - float_0_1 \<le> p \<and> p \<le> float_0_1)
           \<and> (p = float_0_1 \<or> p = - float_0_1 \<longrightarrow> label = ''Neutral'')"
proof -
  have positive: "0 < float_0_1"
    by (simp add: float_0_1_def)
  consider (pos) "p > float_0_1" | (neg) "p < - float_0_1"
    | (mid) "- float_0_1 \<le> p" "p \<le> float_0_1"
    by linarith
  then show ?thesis
  proof cases
    case pos
    then show ?thesis using assms positive by (simp add: analyze_sentiment_def)
  next
    case neg
    then show ?thesis using assms positive by (simp add: analyze_sentiment_def)
  next
    case mid
    then show ?thesis using assms positive by (auto simp: analyze_sentiment_def)
  qed
qed

text \<open>
  The witness takes the two boundary floats, the floats next to them on the outer side,
  which differ from them by \<open>1 / 2 ^ 56\<close>, and the polarities one half and minus one half.
\<close>

theorem analyze_sentiment_thresholds_witness:
  "analyze_sentiment (\<lambda>t. Inr float_0_1) ''fine'' = Inr (''Neutral'', float_0_1)
   \<and> analyze_sentiment (\<lambda>t. Inr (- float_0_1)) ''fine'' = Inr (''Neutral'', - float_0_1)
   \<and> analyze_sentiment (\<lambda>t. Inr (7205759403792795 / 2 ^ 56)) ''good''
       = Inr (''Positive'', 7205759403792795 / 2 ^ 56)
   \<and> analyze_sentiment (\<lambda>t. Inr (- (7205759403792795 / 2 ^ 56))) ''bad''
       = Inr (''Negative'', - (7205759403792795 / 2 ^ 56))
   \<and> analyze_sentiment (\<lambda>t. Inr 0.5) ''I love this!'' = Inr (''Positive'', 0.5)
   \<and> analyze_sentiment (\<lambda>t. Inr (- 0.5)) ''I hate this'' = Inr (''Negative'', - 0.5)"
proof -
  have above: "float_0_1 < 7205759403792795 / 2 ^ 56" and half: "float_0_1 < 0.5"
    by (simp_all add: float_0_1_def)
  from above half
    analyze_sentiment_thresholds [of "\<lambda>t. Inr float_0_1" "''fine''" float_0_1]
    analyze_sentiment_thresholds [of "\<lambda>t. Inr (- float_0_1)" "''fine''" "- float_0_1"]
    analyze_sentiment_thresholds [of "\<lambda>t. Inr (7205759403792795 / 2 ^ 56)" "''good''"
      "7205759403792795 / 2 ^ 56"]
    analyze_sentiment_thresholds [of "\<lambda>t. Inr (- (7205759403792795 / 2 ^ 56))" "''bad''"
      "- (7205759403792795 / 2 ^ 56)"]
    analyze_sentiment_thresholds [of "\<lambda>t. Inr 0.5" "''I love this!''" "0.5"]
    analyze_sentiment_thresholds [of "\<lambda>t. Inr (- 0.5)" "''I hate this''" "- 0.5"]
  show ?thesis by auto
qed

section \<open>The latest message after an analysis\<close>

text \<open>
  C2. When \<open>analyze_message\<close> returns a label and a polarity for a message and a user,
  \<open>get_latest_message\<close> called next returns the record of that message with the same label
  and the same polarity.
\<close>

theorem analyze_then_latest:
  assumes "analyze_message sc ai message user_id = (Inr (label, polarity), ai')"
  shows "get_latest_message ai' = Some (message, label, polarity)"
  using assms
  by (auto simp: analyze_message_def get_latest_message_def split: sum.splits prod.splits)

theorem analyze_then_latest_witness:
  "fst (analyze_message (\<lambda>t. Inr 0.5) (MoodAwareAI_init None) ''I love this!'' ''alice'')
     = Inr (''Positive'', 0.5)
   \<and> get_latest_message
        (snd (analyze_message (\<lambda>t. Inr 0.5) (MoodAwareAI_init None) ''I love this!'' ''alice''))
     = Some (''I love this!'', ''Positive'', 0.5)"
proof -
  let ?call = "analyze_message (\<lambda>t. Inr 0.5) (MoodAwareAI_init None) ''I love this!'' ''alice''"
  have returned: "?call = (Inr (''Positive'', 0.5), snd ?call)"
    by (simp add: analyze_message_def analyze_sentiment_def float_0_1_def)
  have val: "fst ?call = Inr (''Positive'', 0.5)"
    by (simp add: analyze_message_def analyze_sentiment_def float_0_1_def)
  from val analyze_then_latest [OF returned] show ?thesis by (rule conjI)
qed

section \<open>Ids of the sentiment history\<close>

text \<open>
  C3, as the code has it. \<open>log_sentiment\<close> returns Python's \<open>None\<close>, not an id. It appends
  exactly one row, made of its arguments and of an id that the store chooses; while the ids
  in use are below the largest id of the store, the new id is greater than the id of every
  row stored before, so it is new, and it is an id of the store. On a new database the
  calls get the ids 1, 2, 3 and so on, in the order of the calls.
\<close>

theorem log_sentiment_assigns_increasing_id:
  "fst (log_sentiment db u m s p) = None
   \<and> ((\<forall>r \<in> set (sentiment_history db). row_id r < max_rowid) \<longrightarrow>
        (\<exists>new. snd (log_sentiment db u m s p)
                  = db\<lparr>sentiment_history := sentiment_history db @ [new]\<rparr>
           \<and> new = \<lparr>row_id = row_id new, row_user_id = u, row_message = m,
                     row_sentiment = s, row_polarity = p\<rparr>
           \<and> (\<forall>r \<in> set (sentiment_history db). row_id r < row_id new)
           \<and> row_id new \<notin> row_id ` set (sentiment_history db)
           \<and> row_id new \<le> max_rowid))
   \<and> map row_id (sentiment_history
         (fold (\<lambda>(u, m, s, p) d. snd (log_sentiment d u m s p)) calls (setup_db None)))
       = [1..int (length calls)]"
proof -
  let ?i = "next_rowid (map row_id (sentiment_history db))"
  let ?new = "\<lparr>row_id = ?i, row_user_id = u, row_message = m,
                row_sentiment = s, row_polarity = p\<rparr>"
  have none: "fst (log_sentiment db u m s p) = None"
    by (simp add: log_sentiment_def)
  have gt: "\<forall>r \<in> set (sentiment_history db). row_id r < ?i"
    by (simp add: next_rowid_gt)
  then have fresh: "?i \<notin> row_id ` set (sentiment_history db)"
    by auto
  have le: "?i \<le> max_rowid"
    if "\<forall>r \<in> set (sentiment_history db). row_id r < max_rowid"
    using that by (intro next_rowid_le) simp
  have "snd (log_sentiment db u m s p)
          = db\<lparr>sentiment_history := sentiment_history db @ [?new]\<rparr>"
    by (simp add: log_sentiment_def)
  with gt fresh le
  have one: "\<exists>new. snd (log_sentiment db u m s p)
                  = db\<lparr>sentiment_history := sentiment_history db @ [new]\<rparr>
           \<and> new = \<lparr>row_id = row_id new, row_user_id = u, row_message = m,
                     row_sentiment = s, row_polarity = p\<rparr>
           \<and> (\<forall>r \<in> set (sentiment_history db). row_id r < row_id new)
           \<and> row_id new \<notin> row_id ` set (sentiment_history db)
           \<and> row_id new \<le> max_rowid"
    if "\<forall>r \<in> set (sentiment_history db). row_id r < max_rowid"
    using that by (intro exI [of _ ?new]) simp
  have run: "map row_id (sentiment_history
         (fold (\<lambda>(u, m, s, p) d. snd (log_sentiment d u m s p)) calls (setup_db None)))
       = [1..int (length calls)]"
    using history_ids_fold [of "setup_db None" calls] by (simp add: setup_db_def)
  from none one run show ?thesis by blast
qed

theorem log_sentiment_assigns_increasing_id_witness:
  "fst (log_sentiment
          (snd (log_sentiment (setup_db None) ''alice'' ''I love this!'' ''Positive'' 0.5))
          ''bob'' ''I hate this'' ''Negative'' (- 0.5)) = None
   \<and> map row_id (sentiment_history (snd (log_sentiment
          (snd (log_sentiment (setup_db None) ''alice'' ''I love this!'' ''Positive'' 0.5))
          ''bob'' ''I hate this'' ''Negative'' (- 0.5)))) = [1, 2]"
proof -
  let ?db = "snd (log_sentiment (setup_db None) ''alice'' ''I love this!'' ''Positive'' 0.5)"
  note inst = log_sentiment_assigns_increasing_id [of ?db "''bob''" "''I hate this''"
      "''Negative''" "- 0.5"]
  have below: "\<forall>r \<in> set (sentiment_history ?db). row_id r < max_rowid"
    by (simp add: log_sentiment_def setup_db_def next_rowid_def max_rowid_def)
  from inst [THEN conjunct1]
  have none: "fst (log_sentiment ?db ''bob'' ''I hate this'' ''Negative'' (- 0.5)) = None" .
  from inst [THEN conjunct2, THEN conjunct1, THEN mp, OF below]
  have ids: "map row_id (sentiment_history
      (snd (log_sentiment ?db ''bob'' ''I hate this'' ''Negative'' (- 0.5)))) = [1, 2]"
    by (auto simp: log_sentiment_def setup_db_def next_rowid_def)
  from none ids show ?thesis by (rule conjI)
qed

text \<open>
  C3 as stated fails: the value of the very first call on a new database is not the id of
  the row that the call stored.
\<close>

theorem log_sentiment_returns_id_counterexample:
  "fst (log_sentiment (setup_db None) ''alice'' ''I love this!'' ''Positive'' 0.5)
     \<noteq> Some (row_id (last (sentiment_history
           (snd (log_sentiment (setup_db None) ''alice'' ''I love this!'' ''Positive'' 0.5)))))"
  by (simp add: log_sentiment_def)

section \<open>Preferences\<close>




section \<open>Failure of the scorer\<close>

text \<open>
  C5, as the code has it. When the scorer raises for the message, \<open>analyze_message\<close> is left
  by that same exception, unchanged and not wrapped, and the object is as before the call:
  no row is appended to the history and the latest message is not updated.
\<close>

theorem scorer_failure_propagates:
  assumes "sc message = Inl e"
  shows "fst (analyze_message sc ai message user_id) = Inl e
     \<and> snd (analyze_message sc ai message user_id) = ai
     \<and> sentiment_history (db_manager (snd (analyze_message sc ai message user_id)))
         = sentiment_history (db_manager ai)
     \<and> get_latest_message (snd (analyze_message sc ai message user_id))
         = get_latest_message ai"
  using assms by (simp add: analyze_message_def analyze_sentiment_def float_0_1_def)

theorem scorer_failure_propagates_witness:
  "analyze_message (\<lambda>t. Inl (PyException ''RuntimeError'')) (MoodAwareAI_init None)
     ''hello'' ''alice''
     = (Inl (PyException ''RuntimeError''), MoodAwareAI_init None)"
  using scorer_failure_propagates [of "\<lambda>t. Inl (PyException ''RuntimeError'')" "''hello''"
      "PyException ''RuntimeError''" "MoodAwareAI_init None" "''alice''"]
  by (simp add: prod_eq_iff)

text \<open>
  C5 as stated fails: the exception that reaches the caller is the one of the scorer, not
  a \<^verbatim>\<open>ClassificationError\<close>.
\<close>

theorem scorer_failure_classification_error_counterexample:
  "fst (analyze_message (\<lambda>t. Inl (PyException ''RuntimeError'')) (MoodAwareAI_init None)
          ''hello'' ''alice'')
     \<noteq> Inl ClassificationError"
  by (simp add: analyze_message_def analyze_sentiment_def float_0_1_def ClassificationError_def)

section \<open>Rescheduling after a tick\<close>

text \<open>
  C6, as the code has it. A tick that ends without an exception starts the next timer with
  the delay 300, and a tick ends so when there is nothing to send and when the delivery
  succeeds. When the delivery raises, the tick is left by that exception before the
  rescheduling statement: the bot is unchanged, so no next timer is started. A tick raises
  only in that case.
\<close>

theorem tick_reschedules_unless_delivery_raises:
  "(fst (check_and_respond_periodically conn self) = None \<longrightarrow>
      timers (snd (check_and_respond_periodically conn self)) = timers self @ [300])
   \<and> (fst (check_and_respond_periodically conn self) = Some e \<longrightarrow>
        snd (check_and_respond_periodically conn self) = self
        \<and> (\<exists>message sentiment score.
              get_latest_message (mood_ai self) = Some (message, sentiment, score)
              \<and> conn (channel self) (periodic_response sentiment message) = Some e))
   \<and> (get_latest_message (mood_ai self) = None \<longrightarrow>
        fst (check_and_respond_periodically conn self) = None)
   \<and> (get_latest_message (mood_ai self) = Some (message, sentiment, score)
        \<and> conn (channel self) (periodic_response sentiment message) = None \<longrightarrow>
        fst (check_and_respond_periodically conn self) = None)
   \<and> (get_latest_message (mood_ai self) = Some (message, sentiment, score)
        \<and> conn (channel self) (periodic_response sentiment message) = Some e \<longrightarrow>
        check_and_respond_periodically conn self = (Some e, self)
        \<and> timers (snd (check_and_respond_periodically conn self)) = timers self)"
  by (auto simp: check_and_respond_periodically_def privmsg_def schedule_periodic_mood_check_def
      split: option.splits prod.splits)

theorem tick_reschedules_unless_delivery_raises_witness:
  "timers (snd (check_and_respond_periodically (\<lambda>target text. None)
       \<lparr>channel = ''#wetfish'',
        mood_ai = \<lparr>db_manager = setup_db None,
                   latest_message = Some (''I love this!'', ''Positive'', 0.5)\<rparr>,
        timers = [], sent = []\<rparr>)) = [300]
   \<and> snd (check_and_respond_periodically
       (\<lambda>target text. Some (PyException ''ServerNotConnectedError''))
       \<lparr>channel = ''#wetfish'',
        mood_ai = \<lparr>db_manager = setup_db None,
                   latest_message = Some (''I love this!'', ''Positive'', 0.5)\<rparr>,
        timers = [], sent = []\<rparr>)
     = \<lparr>channel = ''#wetfish'',
        mood_ai = \<lparr>db_manager = setup_db None,
                   latest_message = Some (''I love this!'', ''Positive'', 0.5)\<rparr>,
        timers = [], sent = []\<rparr>"
proof -
  let ?self = "\<lparr>channel = ''#wetfish'',
        mood_ai = \<lparr>db_manager = setup_db None,
                   latest_message = Some (''I love this!'', ''Positive'', 0.5)\<rparr>,
        timers = [], sent = []\<rparr>"
  let ?down = "\<lambda>target text. Some (PyException ''ServerNotConnectedError'')"
  let ?up = "\<lambda>target text. None :: py_exception option"
  note delivered = tick_reschedules_unless_delivery_raises [of ?up ?self _
      "''I love this!''" "''Positive''" "0.5"]
  note failed = tick_reschedules_unless_delivery_raises [of ?down ?self
      "PyException ''ServerNotConnectedError''" "''I love this!''" "''Positive''" "0.5"]
  have sends: "get_latest_message (mood_ai ?self) = Some (''I love this!'', ''Positive'', 0.5)
      \<and> ?up (channel ?self) (periodic_response ''Positive'' ''I love this!'') = None"
    by (simp add: get_latest_message_def)
  have raises: "get_latest_message (mood_ai ?self) = Some (''I love this!'', ''Positive'', 0.5)
      \<and> ?down (channel ?self) (periodic_response ''Positive'' ''I love this!'')
          = Some (PyException ''ServerNotConnectedError'')"
    by (simp add: get_latest_message_def)
  from delivered [THEN conjunct2, THEN conjunct2, THEN conjunct2, THEN conjunct1, THEN mp,
      OF sends]
  have ok: "fst (check_and_respond_periodically ?up ?self) = None" .
  from delivered [THEN conjunct1, THEN mp, OF ok]
  have rescheduled: "timers (snd (check_and_respond_periodically ?up ?self)) = [300]"
    by simp
  from failed [THEN conjunct2, THEN conjunct2, THEN conjunct2, THEN conjunct2, THEN mp,
      OF raises]
  have stopped: "snd (check_and_respond_periodically ?down ?self) = ?self"
    by simp
  from rescheduled stopped show ?thesis by (rule conjI)
qed

text \<open>
  C6 as stated fails: on a bot that has analysed one message, the timer fires while the
  connection raises on every delivery; the tick ends by the exception and no timer is
  pending afterwards, so no further tick is scheduled.
\<close>

theorem tick_always_reschedules_counterexample:
  "fst (timer_fires (\<lambda>target text. Some (PyException ''ServerNotConnectedError''))
          (step (\<lambda>t. Inr 0.5) (Analyze ''I love this!'' ''alice'')
             (MoodCheckBot_init ''#wetfish'' (MoodAwareAI_init None))))
     = Some (PyException ''ServerNotConnectedError'')
   \<and> timers (snd (timer_fires (\<lambda>target text. Some (PyException ''ServerNotConnectedError''))
          (step (\<lambda>t. Inr 0.5) (Analyze ''I love this!'' ''alice'')
             (MoodCheckBot_init ''#wetfish'' (MoodAwareAI_init None))))) = []"
  by (simp add: timer_fires_def check_and_respond_periodically_def privmsg_def
      get_latest_message_def analyze_message_def analyze_sentiment_def float_0_1_def MoodCheckBot_init_def
      schedule_periodic_mood_check_def MoodAwareAI_init_def)

section \<open>Before the first analysis\<close>

text \<open>
  C7. A new \<open>MoodAwareAI\<close> has no latest message: \<open>get_latest_message\<close> returns \<open>None\<close>,
  and it still does after any run of events none of which analyses a message. A tick of a
  bot without latest message delivers nothing: it raises nothing, the list of delivered
  messages is as before, and the only effect is the next timer.
\<close>

theorem latest_empty_before_analyze:
  "get_latest_message (MoodAwareAI_init file) = None
   \<and> ((\<forall>ev \<in> set events. \<not> calls_analyze ev) \<longrightarrow>
        get_latest_message
          (mood_ai (run sc events (MoodCheckBot_init chan (MoodAwareAI_init file)))) = None)
   \<and> (get_latest_message (mood_ai self) = None \<longrightarrow>
        check_and_respond_periodically conn self = (None, schedule_periodic_mood_check self)
        \<and> sent (snd (check_and_respond_periodically conn self)) = sent self)"
proof -
  have a: "get_latest_message (MoodAwareAI_init file) = None"
    by (simp add: get_latest_message_def MoodAwareAI_init_def)
  have b: "get_latest_message
      (mood_ai (run sc events (MoodCheckBot_init chan (MoodAwareAI_init file)))) = None"
    if "\<forall>ev \<in> set events. \<not> calls_analyze ev"
    using latest_run_quiet [OF that, of sc "MoodCheckBot_init chan (MoodAwareAI_init file)"]
    by (simp add: get_latest_message_def MoodAwareAI_init_def MoodCheckBot_init_def
        schedule_periodic_mood_check_def)
  have c: "check_and_respond_periodically conn self = (None, schedule_periodic_mood_check self)
        \<and> sent (snd (check_and_respond_periodically conn self)) = sent self"
    if "get_latest_message (mood_ai self) = None"
    using that by (simp add: check_and_respond_periodically_def schedule_periodic_mood_check_def)
  from a b c show ?thesis by blast
qed

theorem latest_empty_before_analyze_witness:
  "get_latest_message (mood_ai (run (\<lambda>t. Inr 0.5)
       [Latest, UpdatePreferences (\<lambda>t. None) (PyInt 7) True 60 0.75, GetPreferences (\<lambda>t. None) (PyStr ''alice''), Tick (\<lambda>target text. None)]
       (MoodCheckBot_init ''#wetfish'' (MoodAwareAI_init None)))) = None
   \<and> sent (snd (check_and_respond_periodically (\<lambda>target text. None)
       (MoodCheckBot_init ''#wetfish'' (MoodAwareAI_init None)))) = []"
proof -
  let ?events = "[Latest, UpdatePreferences (\<lambda>t. None) (PyInt 7) True 60 0.75, GetPreferences (\<lambda>t. None) (PyStr ''alice''),
    Tick (\<lambda>target text. None)]"
  let ?bot = "MoodCheckBot_init ''#wetfish'' (MoodAwareAI_init None)"
  have quiet: "\<forall>ev \<in> set ?events. \<not> calls_analyze ev"
    by simp
  have empty: "get_latest_message (mood_ai ?bot) = None"
    by (simp add: get_latest_message_def MoodAwareAI_init_def MoodCheckBot_init_def
        schedule_periodic_mood_check_def)
  have none_sent: "sent ?bot = []"
    by (simp add: MoodCheckBot_init_def schedule_periodic_mood_check_def)
  note inst = latest_empty_before_analyze [of None ?events "\<lambda>t. Inr 0.5" "''#wetfish''" ?bot
      "\<lambda>target text. None"]
  from inst [THEN conjunct2, THEN conjunct1, THEN mp, OF quiet]
  have still_empty: "get_latest_message (mood_ai (run (\<lambda>t. Inr 0.5) ?events ?bot)) = None" .
  from inst [THEN conjunct2, THEN conjunct2, THEN mp, OF empty, THEN conjunct2] none_sent
  have undelivered: "sent (snd (check_and_respond_periodically (\<lambda>target text. None) ?bot)) = []"
    by simp
  from still_empty undelivered show ?thesis by (rule conjI)
qed

section \<open>One slot for all users\<close>

text \<open>
  C8. When a message of alice and then a message of bob are analysed, the latest message
  after the first call is the record of alice, and after the second call it is the record of
  bob: the one slot is overwritten by the most recent analysis, whoever the user is. The
  history then ends with the row of alice followed by the row of bob.
\<close>

theorem latest_is_single_global_slot:
  assumes "analyze_message sc ai m1 alice = (Inr r1, ai1)"
      and "analyze_message sc ai1 m2 bob = (Inr r2, ai2)"
  shows "get_latest_message ai1 = Some (m1, fst r1, snd r1)
       \<and> get_latest_message ai2 = Some (m2, fst r2, snd r2)
       \<and> (\<exists>i j. sentiment_history (db_manager ai2) = sentiment_history (db_manager ai) @
             [\<lparr>row_id = i, row_user_id = alice, row_message = m1,
               row_sentiment = fst r1, row_polarity = snd r1\<rparr>,
              \<lparr>row_id = j, row_user_id = bob, row_message = m2,
               row_sentiment = fst r2, row_polarity = snd r2\<rparr>])"
  using assms
  by (auto simp: analyze_message_def get_latest_message_def log_sentiment_def
      split: sum.splits prod.splits)

theorem latest_is_single_global_slot_witness:
  "get_latest_message
     (snd (analyze_message (\<lambda>t. if t = ''I love this!'' then Inr 0.5 else Inr (- 0.5))
        (snd (analyze_message (\<lambda>t. if t = ''I love this!'' then Inr 0.5 else Inr (- 0.5))
           (MoodAwareAI_init None) ''I love this!'' ''alice''))
        ''I hate this'' ''bob''))
     = Some (''I hate this'', ''Negative'', - 0.5)
   \<and> map row_user_id (sentiment_history (db_manager
     (snd (analyze_message (\<lambda>t. if t = ''I love this!'' then Inr 0.5 else Inr (- 0.5))
        (snd (analyze_message (\<lambda>t. if t = ''I love this!'' then Inr 0.5 else Inr (- 0.5))
           (MoodAwareAI_init None) ''I love this!'' ''alice''))
        ''I hate this'' ''bob'')))) = [''alice'', ''bob'']"
proof -
  let ?sc = "\<lambda>t. if t = ''I love this!'' then Inr 0.5 else (Inr (- 0.5) :: py_exception + real)"
  let ?first = "analyze_message ?sc (MoodAwareAI_init None) ''I love this!'' ''alice''"
  let ?second = "analyze_message ?sc (snd ?first) ''I hate this'' ''bob''"
  have one: "?first = (Inr (''Positive'', 0.5), snd ?first)"
    by (simp add: analyze_message_def analyze_sentiment_def float_0_1_def)
  have two: "?second = (Inr (''Negative'', - 0.5), snd ?second)"
    by (simp add: analyze_message_def analyze_sentiment_def float_0_1_def)
  have start: "sentiment_history (db_manager (MoodAwareAI_init None)) = []"
    by (simp add: MoodAwareAI_init_def setup_db_def)
  from latest_is_single_global_slot [OF one two] start show ?thesis
    by auto
qed

section \<open>The period of the scheduler\<close>

text \<open>
  C9. Every timer is started with the delay 300: \<open>schedule_periodic_mood_check\<close> adds that
  delay, and in every state that a run of events reaches from a new bot each pending timer
  has it. The stored preferences are not consulted: replacing the whole table of
  preferences of the initial state changes neither the timers nor the delivered messages
  of any run.
\<close>

theorem scheduler_period_ignores_preferences:
  "timers (schedule_periodic_mood_check self) = timers self @ [300]
   \<and> (\<forall>delay \<in> set (timers (run sc events (MoodCheckBot_init chan ai))). delay = 300)
   \<and> timers (run sc events (MoodCheckBot_init chan
         (ai\<lparr>db_manager := (db_manager ai)\<lparr>preferences := table\<rparr>\<rparr>)))
       = timers (run sc events (MoodCheckBot_init chan ai))
   \<and> sent (run sc events (MoodCheckBot_init chan
         (ai\<lparr>db_manager := (db_manager ai)\<lparr>preferences := table\<rparr>\<rparr>)))
       = sent (run sc events (MoodCheckBot_init chan ai))"
proof -
  let ?a = "MoodCheckBot_init chan (ai\<lparr>db_manager := (db_manager ai)\<lparr>preferences := table\<rparr>\<rparr>)"
  let ?b = "MoodCheckBot_init chan ai"
  have "set (timers ?b) \<subseteq> {300}"
    by (simp add: MoodCheckBot_init_def schedule_periodic_mood_check_def)
  from timers_run [OF this, of sc events]
  have one: "\<forall>delay \<in> set (timers (run sc events ?b)). delay = 300" by auto
  have "same_but_preferences ?a ?b"
    by (simp add: same_but_preferences_def MoodCheckBot_init_def schedule_periodic_mood_check_def)
  from same_run [OF this, of sc events]
  have two: "timers (run sc events ?a) = timers (run sc events ?b)"
    and three: "sent (run sc events ?a) = sent (run sc events ?b)"
    by (simp_all add: same_but_preferences_def)
  have zero: "timers (schedule_periodic_mood_check self) = timers self @ [300]"
    by (simp add: schedule_periodic_mood_check_def)
  from zero one two three show ?thesis by blast
qed

theorem scheduler_period_ignores_preferences_witness:
  "hd (timers (run (\<lambda>t. Inr 0.5)
       [UpdatePreferences (\<lambda>t. None) (PyInt 7) False 60 0.75, Analyze ''I love this!'' ''alice'',
        Tick (\<lambda>target text. None)]
       (MoodCheckBot_init ''#wetfish'' (MoodAwareAI_init None)))) = 300
   \<and> length (timers (run (\<lambda>t. Inr 0.5)
       [UpdatePreferences (\<lambda>t. None) (PyInt 7) False 60 0.75, Analyze ''I love this!'' ''alice'',
        Tick (\<lambda>target text. None)]
       (MoodCheckBot_init ''#wetfish'' (MoodAwareAI_init None)))) = 1"
proof -
  let ?run = "run (\<lambda>t. Inr 0.5)
       [UpdatePreferences (\<lambda>t. None) (PyInt 7) False 60 0.75, Analyze ''I love this!'' ''alice'',
        Tick (\<lambda>target text. None)]
       (MoodCheckBot_init ''#wetfish'' (MoodAwareAI_init None))"
  have len: "length (timers ?run) = 1"
    by (simp add: run_def timer_fires_def check_and_respond_periodically_def privmsg_def
        get_latest_message_def analyze_message_def analyze_sentiment_def float_0_1_def MoodCheckBot_init_def
        schedule_periodic_mood_check_def MoodAwareAI_init_def update_user_preferences_def)
  then have "hd (timers ?run) \<in> set (timers ?run)"
    by (cases "timers ?run") simp_all
  then have "hd (timers ?run) = 300"
    by (rule scheduler_period_ignores_preferences [of _ "\<lambda>t. Inr 0.5"
      "[UpdatePreferences (\<lambda>t. None) (PyInt 7) False 60 0.75, Analyze ''I love this!'' ''alice'',
        Tick (\<lambda>target text. None)]" "''#wetfish''" "MoodAwareAI_init None",
      THEN conjunct2, THEN conjunct1, THEN bspec])
  then show ?thesis using len by (rule conjI)
qed

section \<open>The latest message is never cleared\<close>

text \<open>
  C10. A successful \<open>analyze_message\<close> leaves a latest message. No event clears it: each
  event leaves the latest message as it is or leaves a record in the slot, so once the slot
  holds a record, \<open>get_latest_message\<close> returns a record after every run of events.
\<close>

theorem latest_never_empty_again:
  "(fst (analyze_message sc ai message user_id) = Inr r \<longrightarrow>
      get_latest_message (snd (analyze_message sc ai message user_id)) \<noteq> None)
   \<and> (get_latest_message (mood_ai self) \<noteq> None \<longrightarrow>
        get_latest_message (mood_ai (run sc events self)) \<noteq> None)
   \<and> (get_latest_message (mood_ai (step sc ev self)) = get_latest_message (mood_ai self)
        \<or> get_latest_message (mood_ai (step sc ev self)) \<noteq> None)"
proof -
  have a: "get_latest_message (snd (analyze_message sc ai message user_id)) \<noteq> None"
    if "fst (analyze_message sc ai message user_id) = Inr r"
    using that
    by (auto simp: analyze_message_def get_latest_message_def split: sum.splits prod.splits)
  show ?thesis
    using a latest_run_nonempty [of self sc events] latest_step [of sc ev self]
    by (simp add: get_latest_message_def)
qed

theorem latest_never_empty_again_witness:
  "get_latest_message (mood_ai (run (\<lambda>t. if t = ''I love this!'' then Inr 0.5
         else Inl (PyException ''RuntimeError''))
       [Tick (\<lambda>target text. Some (PyException ''ServerNotConnectedError'')),
        UpdatePreferences (\<lambda>t. None) (PyInt 7) False 60 0.75, Analyze ''no score'' ''bob'', Latest]
       (step (\<lambda>t. if t = ''I love this!'' then Inr 0.5 else Inl (PyException ''RuntimeError''))
          (Analyze ''I love this!'' ''alice'')
          (MoodCheckBot_init ''#wetfish'' (MoodAwareAI_init None))))) \<noteq> None"
proof -
  let ?sc = "\<lambda>t. if t = ''I love this!'' then Inr 0.5
    else (Inl (PyException ''RuntimeError'') :: py_exception + real)"
  let ?bot = "step ?sc (Analyze ''I love this!'' ''alice'')
    (MoodCheckBot_init ''#wetfish'' (MoodAwareAI_init None))"
  have "get_latest_message (mood_ai ?bot) \<noteq> None"
    by (simp add: get_latest_message_def analyze_message_def analyze_sentiment_def float_0_1_def)
  with latest_never_empty_again [of ?sc _ _ _ _ ?bot
      "[Tick (\<lambda>target text. Some (PyException ''ServerNotConnectedError'')),
        UpdatePreferences (\<lambda>t. None) (PyInt 7) False 60 0.75, Analyze ''no score'' ''bob'', Latest]"]
  show ?thesis by blast
qed

end
